theory Spec2Isabelle
  imports Main
begin

section \<open>check\_cm\_service.py: a Nagios check of one Cloudera Manager service\<close>

text \<open>
  The script parses its arguments, fills in the default port, prints an advisory about an
  old API version, prompts for missing credentials, asks the Cloudera Manager server for
  one service of one cluster, and reduces the service's health to a status line and a
  Nagios exit code. The model starts from the parsed arguments (\<open>parser.parse_args()\<close>)
  and threads an explicit world through everything the script does to its surroundings.
\<close>

subsection \<open>Configuration (lines 45--65)\<close>

definition DEFAULT_HTTP_PORT :: int where
  "DEFAULT_HTTP_PORT = 7180"

definition DEFAULT_HTTPS_PORT :: int where
  "DEFAULT_HTTPS_PORT = 7183"

definition MINIMUM_SUPPORTED_API_VERSION :: int where
  "MINIMUM_SUPPORTED_API_VERSION = 12"

definition EXIT_OK :: int where
  "EXIT_OK = 0"

definition EXIT_WARNING :: int where
  "EXIT_WARNING = 1"

definition EXIT_CRITICAL :: int where
  "EXIT_CRITICAL = 2"

definition EXIT_UNKNOWN :: int where
  "EXIT_UNKNOWN = 3"

text \<open>The two dictionaries, as association lists in the order the source writes them.\<close>

definition NAGIOS_CODE_MESSAGES :: "(int \<times> string) list" where
  "NAGIOS_CODE_MESSAGES =
     [(EXIT_OK, ''OK''),
      (EXIT_WARNING, ''WARNING''),
      (EXIT_CRITICAL, ''CRITICAL''),
      (EXIT_UNKNOWN, ''UNKNOWN'')]"

definition CM_STATE_CODES :: "(string \<times> int) list" where
  "CM_STATE_CODES =
     [(''HISTORY_NOT_AVAILABLE'', EXIT_UNKNOWN),
      (''NOT_AVAILABLE'', EXIT_UNKNOWN),
      (''DISABLED'', EXIT_UNKNOWN),
      (''GOOD'', EXIT_OK),
      (''CONCERNING'', EXIT_WARNING),
      (''BAD'', EXIT_CRITICAL)]"

subsection \<open>Exceptions and dictionary lookup\<close>

datatype pykey = KeyStr string | KeyInt int

text \<open>
  What the script can raise: \<open>d[k]\<close> on a missing key, end of input at a prompt, a
  method call on the global \<open>api\<close> while it is still \<open>None\<close>, and whatever the
  \<open>cm_api\<close> client raises (carried as its message).
\<close>

datatype error = KeyError pykey | EOFError | AttributeError | ApiException string

definition state_code :: "string \<Rightarrow> error + int" where
  \<comment> \<open>\<open>CM_STATE_CODES[k]\<close>\<close>
  "state_code k =
     (case map_of CM_STATE_CODES k of
        None \<Rightarrow> Inl (KeyError (KeyStr k))
      | Some c \<Rightarrow> Inr c)"

definition code_message :: "int \<Rightarrow> error + string" where
  \<comment> \<open>\<open>NAGIOS_CODE_MESSAGES[c]\<close>\<close>
  "code_message c =
     (case map_of NAGIOS_CODE_MESSAGES c of
        None \<Rightarrow> Inl (KeyError (KeyInt c))
      | Some m \<Rightarrow> Inr m)"

subsection \<open>Data\<close>

text \<open>
  The namespace \<open>parse_args\<close> returns. \<open>-p\<close>, \<open>-u\<close> and \<open>--password\<close> have no default
  and are \<open>None\<close> when absent; \<open>--api-version\<close> is an \<open>int\<close> with a default, \<open>--tls\<close>
  a stored constant.
\<close>

record args =
  hostname :: string
  port :: "int option"
  username :: "string option"
  password :: "string option"
  api_version :: int
  use_tls :: bool
  cluster :: string
  service :: string

text \<open>The keyword arguments \<open>initialize_api\<close> hands to \<open>ApiResource\<close>.\<close>

record ApiResource =
  server_host :: string
  server_port :: "int option"
  api_username :: "string option"
  api_password :: "string option"
  version :: int
  api_use_tls :: bool

text \<open>One entry of \<open>s.healthChecks\<close>: \<open>chk['name']\<close> and \<open>chk['summary']\<close>.\<close>

record health_check =
  chk_name :: string
  chk_summary :: string

text \<open>The attributes of the service object that \<open>main\<close> reads.\<close>

record ApiService =
  name :: string
  healthSummary :: string
  healthChecks :: "health_check list"

text \<open>
  The world of one process: the lines still to be typed at the prompts, what has been written
  to standard output (one entry per write), the module's global \<open>api\<close>, and the Cloudera
  Manager server. The client library \<open>cm_api.api_client\<close> is not part of the script, so the
  two calls the script makes to it are parameters of the world: \<open>remote_cluster n r c\<close>
  is what \<open>r.get_cluster(c)\<close> gives when it is the \<open>n\<close>-th request the server
  receives, \<open>remote_service n cl s\<close> what \<open>cl.get_service(s)\<close> gives; \<open>requests\<close>
  counts the requests made so far. The type \<open>'c\<close> is the library's cluster object.
\<close>

record 'c world =
  stdin :: "string list"
  stdout :: "string list"
  api :: "ApiResource option"
  remote_cluster :: "nat \<Rightarrow> ApiResource \<Rightarrow> string \<Rightarrow> error + 'c"
  remote_service :: "nat \<Rightarrow> 'c \<Rightarrow> string \<Rightarrow> error + ApiService"
  requests :: nat

subsection \<open>Built-ins the script calls\<close>

definition digit :: "nat \<Rightarrow> char" where
  "digit d = ''0123456789'' ! d"

fun str_nat :: "nat \<Rightarrow> string" where
  "str_nat n = (if n < 10 then [digit n] else str_nat (n div 10) @ [digit (n mod 10)])"

declare str_nat.simps [simp del]

definition str_int :: "int \<Rightarrow> string" where
  \<comment> \<open>how \<open>format\<close> renders an \<open>int\<close>\<close>
  "str_int i = (if i < 0 then CHR ''-'' # str_nat (nat (- i)) else str_nat (nat i))"

definition py_print :: "string \<Rightarrow> 'c world \<Rightarrow> 'c world" where
  \<comment> \<open>\<open>print s\<close>: the text followed by a newline\<close>
  "py_print s w = w\<lparr>stdout := stdout w @ [s @ [CHR 0x0A]]\<rparr>"

definition raw_input :: "string \<Rightarrow> 'c world \<Rightarrow> (error + string) \<times> 'c world" where
  \<comment> \<open>writes the prompt to standard output, then reads one line\<close>
  "raw_input prompt w =
     (let w1 = w\<lparr>stdout := stdout w @ [prompt]\<rparr>
      in case stdin w1 of
           [] \<Rightarrow> (Inl EOFError, w1)
         | l # ls \<Rightarrow> (Inr l, w1\<lparr>stdin := ls\<rparr>))"

definition getpass :: "string \<Rightarrow> 'c world \<Rightarrow> (error + string) \<times> 'c world" where
  \<comment> \<open>\<open>getpass.getpass\<close>: the prompt goes to the terminal, not to standard output\<close>
  "getpass prompt w =
     (case stdin w of
        [] \<Rightarrow> (Inl EOFError, w)
      | l # ls \<Rightarrow> (Inr l, w\<lparr>stdin := ls\<rparr>))"

definition get_cluster :: "string \<Rightarrow> 'c world \<Rightarrow> (error + 'c) \<times> 'c world" where
  \<comment> \<open>\<open>api.get_cluster(c)\<close> on the global \<open>api\<close>\<close>
  "get_cluster c w =
     (case api w of
        None \<Rightarrow> (Inl AttributeError, w)
      | Some r \<Rightarrow> (remote_cluster w (requests w) r c, w\<lparr>requests := Suc (requests w)\<rparr>))"

definition get_service :: "'c \<Rightarrow> string \<Rightarrow> 'c world \<Rightarrow> (error + ApiService) \<times> 'c world" where
  \<comment> \<open>\<open>c.get_service(s)\<close>\<close>
  "get_service cl s w =
     (remote_service w (requests w) cl s, w\<lparr>requests := Suc (requests w)\<rparr>)"

subsection \<open>The script's functions\<close>

definition initialize_api :: "args \<Rightarrow> 'c world \<Rightarrow> 'c world" where
  \<comment> \<open>lines 70--78\<close>
  "initialize_api a w =
     w\<lparr>api := Some \<lparr>server_host = hostname a, server_port = port a,
                     api_username = username a, api_password = password a,
                     version = api_version a, api_use_tls = use_tls a\<rparr>\<rparr>"

definition validate_api_compatibility :: "args \<Rightarrow> 'c world \<Rightarrow> 'c world" where
  \<comment> \<open>lines 80--87; \<open>args.api_version and ...\<close>: an \<open>int\<close> is false exactly when it is 0\<close>
  "validate_api_compatibility a w =
     (if api_version a \<noteq> 0 \<and> api_version a < MINIMUM_SUPPORTED_API_VERSION
      then py_print (''ERROR: Given API version: '' @ str_int (api_version a) @
                     ''. Minimum supported API version: '' @
                     str_int MINIMUM_SUPPORTED_API_VERSION) w
      else w)"

definition get_login_credentials :: "args \<Rightarrow> 'c world \<Rightarrow> (error + args) \<times> 'c world" where
  \<comment> \<open>lines 90--99; \<open>not args.username\<close> holds for \<open>None\<close> and for the empty string\<close>
  "get_login_credentials a w =
     (case (if username a = None \<or> username a = Some []
            then (case raw_input ''Enter Username: '' w of
                    (Inl e, w1) \<Rightarrow> (Inl e, w1)
                  | (Inr u, w1) \<Rightarrow> (Inr (a\<lparr>username := Some u\<rparr>), w1))
            else (Inr a, w)) of
        (Inl e, w1) \<Rightarrow> (Inl e, w1)
      | (Inr a1, w1) \<Rightarrow>
          if password a1 = None \<or> password a1 = Some []
          then (case getpass ''Enter Password: '' w1 of
                  (Inl e, w2) \<Rightarrow> (Inl e, w2)
                | (Inr p, w2) \<Rightarrow> (Inr (a1\<lparr>password := Some p\<rparr>), w2))
          else (Inr a1, w1))"

definition default_port :: "args \<Rightarrow> args" where
  \<comment> \<open>lines 136--141; \<open>not args.port\<close> holds for \<open>None\<close> and for 0\<close>
  "default_port a =
     (if port a = None \<or> port a = Some 0
      then (if use_tls a
            then a\<lparr>port := Some DEFAULT_HTTPS_PORT\<rparr>
            else a\<lparr>port := Some DEFAULT_HTTP_PORT\<rparr>)
      else a)"

definition status_and_code :: "string \<Rightarrow> ApiService \<Rightarrow> error + string \<times> int" where
  \<comment> \<open>lines 157--158 with the key \<open>"GOOD"\<close>, lines 160--161 with the key \<open>summary\<close>:
      \<open>"%s: %s is %s" % (NAGIOS_CODE_MESSAGES[CM_STATE_CODES[key]], s.name, summary)\<close>
      and \<open>CM_STATE_CODES[key]\<close>\<close>
  "status_and_code key s =
     (case state_code key of
        Inl e \<Rightarrow> Inl e
      | Inr c \<Rightarrow>
          (case code_message c of
             Inl e \<Rightarrow> Inl e
           | Inr label \<Rightarrow> Inr (label @ '': '' @ name s @ '' is '' @ healthSummary s, c)))"

fun append_checks :: "string \<Rightarrow> health_check list \<Rightarrow> string" where
  \<comment> \<open>the loop of lines 165--167\<close>
  "append_checks status [] = status"
| "append_checks status (chk # check) =
     append_checks
       (if chk_summary chk \<noteq> ''GOOD'' \<and> chk_summary chk \<noteq> ''DISABLED''
        then status @ (chk_name chk @ '' ('' @ chk_summary chk @ '') '')
        else status)
       check"

definition health_report :: "ApiService \<Rightarrow> error + string \<times> int" where
  \<comment> \<open>lines 153--169\<close>
  "health_report s =
     (case (if healthSummary s = ''CONCERNING''
            then status_and_code ''GOOD'' s
            else status_and_code (healthSummary s) s) of
        Inl e \<Rightarrow> Inl e
      | Inr (status, code) \<Rightarrow>
          Inr (if healthSummary s \<noteq> ''GOOD'' \<and> healthSummary s \<noteq> ''DISABLED''
               then append_checks (status @ '' - '') (healthChecks s)
               else status,
               code))"

definition login_and_fetch :: "args \<Rightarrow> 'c world \<Rightarrow> (error + ApiService) \<times> 'c world" where
  \<comment> \<open>lines 144--151\<close>
  "login_and_fetch a w =
     (case get_login_credentials a w of
        (Inl e, w1) \<Rightarrow> (Inl e, w1)
      | (Inr a1, w1) \<Rightarrow>
          (case get_cluster (cluster a1) (initialize_api a1 w1) of
             (Inl e, w2) \<Rightarrow> (Inl e, w2)
           | (Inr c, w2) \<Rightarrow> get_service c (service a1) w2))"

definition fetch_service :: "args \<Rightarrow> 'c world \<Rightarrow> (error + ApiService) \<times> 'c world" where
  \<comment> \<open>lines 136--151: \<open>main\<close> up to the service object \<open>s\<close>\<close>
  "fetch_service a w =
     (let a1 = default_port a
      in login_and_fetch a1 (validate_api_compatibility a1 w))"

definition main :: "args \<Rightarrow> 'c world \<Rightarrow> (error + string \<times> int) \<times> 'c world" where
  \<comment> \<open>lines 101--169, from the parsed arguments on\<close>
  "main a w =
     (case fetch_service a w of
        (Inl e, w1) \<Rightarrow> (Inl e, w1)
      | (Inr s, w1) \<Rightarrow> (health_report s, w1))"

text \<open>
  How the process ends: \<open>sys.exit(n)\<close>, or an exception nobody catches (the interpreter
  prints a traceback and the exit status is 1).
\<close>

datatype exit = Exit int | Uncaught error

definition script :: "args \<Rightarrow> 'c world \<Rightarrow> exit \<times> 'c world" where
  \<comment> \<open>lines 173--175: \<open>print main()[0]\<close>, then \<open>sys.exit(main()[1])\<close>. Each call of
      \<open>main\<close> parses the same command line again, so both start from the same \<open>args\<close>.\<close>
  "script a w =
     (case main a w of
        (Inl e, w1) \<Rightarrow> (Uncaught e, w1)
      | (Inr r1, w1) \<Rightarrow>
          (case main a (py_print (fst r1) w1) of
             (Inl e, w2) \<Rightarrow> (Uncaught e, w2)
           | (Inr r2, w2) \<Rightarrow> (Exit (snd r2), w2)))"

subsection \<open>The status line as the specification words it\<close>

text \<open>
  The specification describes the tail of the status line without the loop: every
  health check whose own summary is neither \<open>GOOD\<close> nor \<open>DISABLED\<close>, rendered as
  \<open>"<name> (<summary>) "\<close>, in the order of the list. These three definitions follow
  those words; \<open>append_checks_text\<close> below compares them with the loop of the source.
\<close>

definition check_shown :: "health_check \<Rightarrow> bool" where
  "check_shown chk = (chk_summary chk \<noteq> ''GOOD'' \<and> chk_summary chk \<noteq> ''DISABLED'')"

definition check_text :: "health_check \<Rightarrow> string" where
  "check_text chk = chk_name chk @ '' ('' @ chk_summary chk @ '') ''"

definition checks_text :: "health_check list \<Rightarrow> string" where
  "checks_text check = concat (map check_text (filter check_shown check))"

subsection \<open>A command line and a server to run the script on\<close>

definition hdfs_checks :: "health_check list" where
  "hdfs_checks =
     [\<lparr>chk_name = ''DATANODES_HEALTHY'', chk_summary = ''BAD''\<rparr>,
      \<lparr>chk_name = ''NAMENODE_UPTIME'', chk_summary = ''GOOD''\<rparr>]"

definition hdfs :: "string \<Rightarrow> health_check list \<Rightarrow> ApiService" where
  "hdfs summary check = \<lparr>name = ''hdfs'', healthSummary = summary, healthChecks = check\<rparr>"

definition cli :: "int option \<Rightarrow> int \<Rightarrow> bool \<Rightarrow> args" where
  \<comment> \<open>\<open>-H cm -u admin --password secret -c cluster1 -s hdfs\<close> with the given
      \<open>-p\<close>, \<open>--api-version\<close> and \<open>--tls\<close>\<close>
  "cli p v t =
     \<lparr>hostname = ''cm'', port = p, username = Some ''admin'', password = Some ''secret'',
      api_version = v, use_tls = t, cluster = ''cluster1'', service = ''hdfs''\<rparr>"

definition server :: "(nat \<Rightarrow> ApiService) \<Rightarrow> unit world" where
  \<comment> \<open>a fresh process talking to a server that knows every cluster and answers the
      \<open>n\<close>-th request for a service with \<open>sv n\<close>\<close>
  "server sv =
     \<lparr>stdin = [], stdout = [], api = None,
      remote_cluster = (\<lambda>n r c. Inr ()),
      remote_service = (\<lambda>n c s. Inr (sv n)),
      requests = 0\<rparr>"

definition steady :: "ApiService \<Rightarrow> unit world" where
  \<comment> \<open>the server reports the same service at every request\<close>
  "steady s = server (\<lambda>n. s)"

definition turning :: "ApiService \<Rightarrow> ApiService \<Rightarrow> unit world" where
  \<comment> \<open>the service changes after the second request, that is after one run of \<open>main\<close>\<close>
  "turning s1 s2 = server (\<lambda>n. if n < 2 then s1 else s2)"

section \<open>Properties\<close>

subsection \<open>The tables\<close>

lemma state_code_known:
  "state_code ''HISTORY_NOT_AVAILABLE'' = Inr 3"
  "state_code ''NOT_AVAILABLE'' = Inr 3"
  "state_code ''DISABLED'' = Inr 3"
  "state_code ''GOOD'' = Inr 0"
  "state_code ''CONCERNING'' = Inr 1"
  "state_code ''BAD'' = Inr 2"
  by (simp_all add: state_code_def CM_STATE_CODES_def EXIT_OK_def EXIT_WARNING_def
      EXIT_CRITICAL_def EXIT_UNKNOWN_def)

lemma state_code_keys:
  "set (map fst CM_STATE_CODES) =
     {''HISTORY_NOT_AVAILABLE'', ''NOT_AVAILABLE'', ''DISABLED'', ''GOOD'', ''CONCERNING'', ''BAD''}"
  by (simp add: CM_STATE_CODES_def)

lemma state_code_unknown:
  assumes "k \<notin> set (map fst CM_STATE_CODES)"
  shows "state_code k = Inl (KeyError (KeyStr k))"
proof -
  from assms have "map_of CM_STATE_CODES k = None"
    by (simp add: map_of_eq_None_iff)
  then show ?thesis
    by (simp add: state_code_def)
qed

lemma code_message_known:
  "code_message 0 = Inr ''OK''"
  "code_message 1 = Inr ''WARNING''"
  "code_message 2 = Inr ''CRITICAL''"
  "code_message 3 = Inr ''UNKNOWN''"
  by (simp_all add: code_message_def NAGIOS_CODE_MESSAGES_def EXIT_OK_def EXIT_WARNING_def
      EXIT_CRITICAL_def EXIT_UNKNOWN_def)

subsection \<open>The reduction\<close>

lemma append_checks_text: "append_checks status check = status @ checks_text check"
proof (induction check arbitrary: status)
  case Nil
  show ?case by (simp add: checks_text_def)
next
  case (Cons chk check)
  show ?case
  proof (cases "check_shown chk")
    case True
    then have "append_checks status (chk # check) = append_checks (status @ check_text chk) check"
      by (simp add: check_shown_def check_text_def)
    also have "\<dots> = (status @ check_text chk) @ checks_text check"
      by (rule Cons.IH)
    also have "\<dots> = status @ checks_text (chk # check)"
      using True by (simp add: checks_text_def)
    finally show ?thesis .
  next
    case False
    then have "append_checks status (chk # check) = append_checks status check"
      by (auto simp add: check_shown_def)
    also have "\<dots> = status @ checks_text check"
      by (rule Cons.IH)
    also have "\<dots> = status @ checks_text (chk # check)"
      using False by (simp add: checks_text_def)
    finally show ?thesis .
  qed
qed

lemma checks_text_none:
  assumes "\<forall>chk \<in> set check. \<not> check_shown chk"
  shows "checks_text check = []"
proof -
  from assms have "filter check_shown check = []"
    by (simp add: filter_empty_conv)
  then show ?thesis
    by (simp add: checks_text_def)
qed

lemma status_and_code_known:
  "status_and_code ''HISTORY_NOT_AVAILABLE'' s =
     Inr (''UNKNOWN: '' @ name s @ '' is '' @ healthSummary s, 3)"
  "status_and_code ''NOT_AVAILABLE'' s =
     Inr (''UNKNOWN: '' @ name s @ '' is '' @ healthSummary s, 3)"
  "status_and_code ''DISABLED'' s =
     Inr (''UNKNOWN: '' @ name s @ '' is '' @ healthSummary s, 3)"
  "status_and_code ''GOOD'' s =
     Inr (''OK: '' @ name s @ '' is '' @ healthSummary s, 0)"
  "status_and_code ''CONCERNING'' s =
     Inr (''WARNING: '' @ name s @ '' is '' @ healthSummary s, 1)"
  "status_and_code ''BAD'' s =
     Inr (''CRITICAL: '' @ name s @ '' is '' @ healthSummary s, 2)"
  by (simp_all add: status_and_code_def state_code_known code_message_known)

lemma status_and_code_unknown:
  "k \<notin> set (map fst CM_STATE_CODES) \<Longrightarrow> status_and_code k s = Inl (KeyError (KeyStr k))"
  by (simp add: status_and_code_def state_code_unknown)

text \<open>The severity label the script prints for a summary of the table (lines 156--161).\<close>

lemma health_report_concerning:
  assumes "healthSummary s = ''CONCERNING''"
  shows "health_report s =
           Inr (''OK: '' @ name s @ '' is CONCERNING - '' @ checks_text (healthChecks s), 0)"
  using assms by (simp add: health_report_def status_and_code_known append_checks_text)

lemma health_report_quiet:
  assumes "healthSummary s = ''GOOD'' \<or> healthSummary s = ''DISABLED''"
  shows "health_report s =
           Inr ((if healthSummary s = ''GOOD'' then ''OK'' else ''UNKNOWN'') @ '': '' @ name s @
                '' is '' @ healthSummary s,
                if healthSummary s = ''GOOD'' then 0 else 3)"
  using assms by (auto simp add: health_report_def status_and_code_known)

lemma health_report_loud:
  assumes "healthSummary s \<in> {''HISTORY_NOT_AVAILABLE'', ''NOT_AVAILABLE'', ''BAD''}"
  shows "health_report s =
           Inr ((if healthSummary s = ''BAD'' then ''CRITICAL'' else ''UNKNOWN'') @ '': '' @
                name s @ '' is '' @ healthSummary s @ '' - '' @ checks_text (healthChecks s),
                if healthSummary s = ''BAD'' then 2 else 3)"
  using assms by (auto simp add: health_report_def status_and_code_known append_checks_text)

lemma health_report_unknown:
  assumes "healthSummary s \<notin> set (map fst CM_STATE_CODES)"
  shows "health_report s = Inl (KeyError (KeyStr (healthSummary s)))"
proof -
  from assms have "healthSummary s \<noteq> ''CONCERNING''"
    unfolding state_code_keys by auto
  with assms show ?thesis
    by (simp add: health_report_def status_and_code_unknown)
qed

subsection \<open>From the service object to the result of \<open>main\<close>\<close>

lemma main_report:
  assumes "fst (fetch_service a w) = Inr s"
  shows "fst (main a w) = health_report s"
proof (cases "fetch_service a w")
  case (Pair r w1)
  with assms have "r = Inr s"
    by simp
  with Pair show ?thesis
    by (simp add: main_def)
qed

lemma fetch_service_cli:
  "fst (fetch_service (cli p v t) (steady s)) = Inr s"
  by (simp add: fetch_service_def login_and_fetch_def get_login_credentials_def cli_def
      server_def steady_def default_port_def validate_api_compatibility_def py_print_def
      initialize_api_def get_cluster_def get_service_def Let_def)

lemmas run_defs =
  fetch_service_def login_and_fetch_def get_login_credentials_def cli_def server_def
  steady_def turning_def default_port_def validate_api_compatibility_def py_print_def
  initialize_api_def get_cluster_def get_service_def Let_def main_def script_def hdfs_def
  hdfs_checks_def
  health_report_def status_and_code_known MINIMUM_SUPPORTED_API_VERSION_def
  DEFAULT_HTTP_PORT_def DEFAULT_HTTPS_PORT_def

lemma str_int_12: "str_int 12 = ''12''"
  by (simp add: str_int_def str_nat.simps digit_def)

lemma api_version_default_port: "api_version (default_port a) = api_version a"
  by (simp add: default_port_def)

section \<open>The claims\<close>

text \<open>
  C1. In every run whose fetched service has the health summary \<open>CONCERNING\<close>, \<open>main\<close>
  returns the exit code 0 and a status line that starts with the label \<open>OK\<close>: the code and
  the label the tables give for \<open>GOOD\<close>, not the 1 and \<open>WARNING\<close> they give for
  \<open>CONCERNING\<close>.
\<close>

theorem concerning_reported_ok:
  assumes "fst (fetch_service a w) = Inr s"
    and "healthSummary s = ''CONCERNING''"
  shows "(\<exists>rest. fst (main a w) = Inr (''OK: '' @ rest, 0)) \<and>
         state_code ''GOOD'' = Inr 0 \<and> code_message 0 = Inr ''OK'' \<and>
         state_code ''CONCERNING'' = Inr 1 \<and> code_message 1 = Inr ''WARNING''"
proof -
  have "fst (main a w) = health_report s"
    using assms(1) by (rule main_report)
  then have "fst (main a w) =
      Inr (''OK: '' @ (name s @ '' is CONCERNING - '' @ checks_text (healthChecks s)), 0)"
    using assms(2) by (simp add: health_report_concerning)
  then have "\<exists>rest. fst (main a w) = Inr (''OK: '' @ rest, 0)"
    by (rule exI)
  then show ?thesis
    by (simp add: state_code_known code_message_known)
qed

theorem concerning_reported_ok_witness:
  "fst (fetch_service (cli None 12 False) (steady (hdfs ''CONCERNING'' []))) =
     Inr (hdfs ''CONCERNING'' []) \<and>
   healthSummary (hdfs ''CONCERNING'' []) = ''CONCERNING'' \<and>
   (\<exists>rest. fst (main (cli None 12 False) (steady (hdfs ''CONCERNING'' []))) =
      Inr (''OK: '' @ rest, 0))"
proof -
  have h1: "fst (fetch_service (cli None 12 False) (steady (hdfs ''CONCERNING'' []))) =
     Inr (hdfs ''CONCERNING'' [])"
    by (simp add: fetch_service_cli)
  have h2: "healthSummary (hdfs ''CONCERNING'' []) = ''CONCERNING''"
    by (simp add: hdfs_def)
  from concerning_reported_ok [OF h1 h2] h1 h2 show ?thesis
    by simp
qed

text \<open>
  C2. The script is to print the status line once and to exit with the code of that same
  evaluation, fetching and reducing once per process. The last two lines of the source
  call \<open>main\<close> twice: the first call's status line is printed, the second call's code is
  the exit status. On a server whose service turns from \<open>GOOD\<close> to \<open>BAD\<close> between
  the two evaluations the process prints \<open>OK: hdfs is GOOD\<close> and exits with 2, after four
  requests instead of two.
\<close>

theorem script_evaluates_twice:
  "fst (main (cli None 12 False)
          (turning (hdfs ''GOOD'' hdfs_checks) (hdfs ''BAD'' hdfs_checks))) =
     Inr (''OK: hdfs is GOOD'', 0) \<and>
   fst (script (cli None 12 False)
          (turning (hdfs ''GOOD'' hdfs_checks) (hdfs ''BAD'' hdfs_checks))) = Exit 2 \<and>
   stdout (snd (script (cli None 12 False)
          (turning (hdfs ''GOOD'' hdfs_checks) (hdfs ''BAD'' hdfs_checks)))) =
     [''OK: hdfs is GOOD'' @ [CHR 0x0A]] \<and>
   requests (snd (script (cli None 12 False)
          (turning (hdfs ''GOOD'' hdfs_checks) (hdfs ''BAD'' hdfs_checks)))) = 4"
  by (simp add: run_defs)

text \<open>
  C3. For each of the five summaries \<open>HISTORY_NOT_AVAILABLE\<close>, \<open>NOT_AVAILABLE\<close>,
  \<open>DISABLED\<close>, \<open>GOOD\<close> and \<open>BAD\<close>, \<open>main\<close> returns a status line together with the
  code the table \<open>CM_STATE_CODES\<close> holds for the summary: 3, 3, 3, 0 and 2.
\<close>

theorem exit_code_from_table:
  assumes "fst (fetch_service a w) = Inr s"
    and "healthSummary s \<in>
           {''HISTORY_NOT_AVAILABLE'', ''NOT_AVAILABLE'', ''DISABLED'', ''GOOD'', ''BAD''}"
  shows "\<exists>status code.
           fst (main a w) = Inr (status, code) \<and>
           map_of CM_STATE_CODES (healthSummary s) = Some code \<and>
           (healthSummary s = ''HISTORY_NOT_AVAILABLE'' \<longrightarrow> code = 3) \<and>
           (healthSummary s = ''NOT_AVAILABLE'' \<longrightarrow> code = 3) \<and>
           (healthSummary s = ''DISABLED'' \<longrightarrow> code = 3) \<and>
           (healthSummary s = ''GOOD'' \<longrightarrow> code = 0) \<and>
           (healthSummary s = ''BAD'' \<longrightarrow> code = 2)"
proof -
  have m: "fst (main a w) = health_report s"
    using assms(1) by (rule main_report)
  have t: "map_of CM_STATE_CODES ''HISTORY_NOT_AVAILABLE'' = Some 3"
    "map_of CM_STATE_CODES ''NOT_AVAILABLE'' = Some 3"
    "map_of CM_STATE_CODES ''DISABLED'' = Some 3"
    "map_of CM_STATE_CODES ''GOOD'' = Some 0"
    "map_of CM_STATE_CODES ''BAD'' = Some 2"
    by (simp_all add: CM_STATE_CODES_def EXIT_OK_def EXIT_CRITICAL_def EXIT_UNKNOWN_def)
  consider "healthSummary s = ''GOOD'' \<or> healthSummary s = ''DISABLED''"
    | "healthSummary s \<in> {''HISTORY_NOT_AVAILABLE'', ''NOT_AVAILABLE'', ''BAD''}"
    using assms(2) by auto
  then show ?thesis
  proof cases
    case 1
    then show ?thesis
      using m t by (auto simp add: health_report_quiet)
  next
    case 2
    then show ?thesis
      using m t by (auto simp add: health_report_loud)
  qed
qed

theorem exit_code_from_table_witness:
  "fst (fetch_service (cli None 12 False) (steady (hdfs ''BAD'' hdfs_checks))) =
     Inr (hdfs ''BAD'' hdfs_checks) \<and>
   healthSummary (hdfs ''BAD'' hdfs_checks) = ''BAD'' \<and>
   snd (projr (fst (main (cli None 12 False) (steady (hdfs ''BAD'' hdfs_checks))))) = 2"
proof -
  have h1: "fst (fetch_service (cli None 12 False) (steady (hdfs ''BAD'' hdfs_checks))) =
     Inr (hdfs ''BAD'' hdfs_checks)"
    by (simp add: fetch_service_cli)
  have h2: "healthSummary (hdfs ''BAD'' hdfs_checks) = ''BAD''"
    by (simp add: hdfs_def)
  then have h3: "healthSummary (hdfs ''BAD'' hdfs_checks) \<in>
      {''HISTORY_NOT_AVAILABLE'', ''NOT_AVAILABLE'', ''DISABLED'', ''GOOD'', ''BAD''}"
    by simp
  from exit_code_from_table [OF h1 h3] h1 h2 show ?thesis
    by auto
qed

text \<open>
  C4. The claim: with the summary \<open>CONCERNING\<close> the status line is exactly
  \<open>OK: <service> is CONCERNING\<close>, with no separator and no checks, and the code is 0.
  The code is 0, but line 163 holds for \<open>CONCERNING\<close> as for every summary other than
  \<open>GOOD\<close> and \<open>DISABLED\<close>, so the separator and the failing checks follow. The
  claim fails on the service \<open>hdfs\<close> with the checks \<open>DATANODES_HEALTHY\<close> (\<open>BAD\<close>)
  and \<open>NAMENODE_UPTIME\<close> (\<open>GOOD\<close>).
\<close>

theorem concerning_suffix_counterexample:
  "fst (fetch_service (cli None 12 False) (steady (hdfs ''CONCERNING'' hdfs_checks))) =
     Inr (hdfs ''CONCERNING'' hdfs_checks) \<and>
   healthSummary (hdfs ''CONCERNING'' hdfs_checks) = ''CONCERNING'' \<and>
   name (hdfs ''CONCERNING'' hdfs_checks) = ''hdfs'' \<and>
   fst (main (cli None 12 False) (steady (hdfs ''CONCERNING'' hdfs_checks))) =
     Inr (''OK: hdfs is CONCERNING - DATANODES_HEALTHY (BAD) '', 0) \<and>
   fst (main (cli None 12 False) (steady (hdfs ''CONCERNING'' hdfs_checks))) \<noteq>
     Inr (''OK: hdfs is CONCERNING'', 0)"
  by (simp add: run_defs)

text \<open>
  C4, as the code has it: with the summary \<open>CONCERNING\<close> the status line is
  \<open>OK: <service> is CONCERNING - \<close> followed by every check whose summary is neither
  \<open>GOOD\<close> nor \<open>DISABLED\<close>, in list order, each as \<open><name> (<summary>) \<close>, and the
  code is 0.
\<close>

theorem concerning_status:
  assumes "fst (fetch_service a w) = Inr s"
    and "healthSummary s = ''CONCERNING''"
  shows "fst (main a w) =
           Inr (''OK: '' @ name s @ '' is CONCERNING - '' @
                concat (map check_text (filter check_shown (healthChecks s))), 0)"
proof -
  have "fst (main a w) = health_report s"
    using assms(1) by (rule main_report)
  also have "\<dots> = Inr (''OK: '' @ name s @ '' is CONCERNING - '' @
      checks_text (healthChecks s), 0)"
    using assms(2) by (rule health_report_concerning)
  finally show ?thesis
    by (simp add: checks_text_def)
qed

theorem concerning_status_witness:
  "fst (fetch_service (cli None 12 True) (steady (hdfs ''CONCERNING'' []))) =
     Inr (hdfs ''CONCERNING'' []) \<and>
   healthSummary (hdfs ''CONCERNING'' []) = ''CONCERNING'' \<and>
   fst (main (cli None 12 True) (steady (hdfs ''CONCERNING'' []))) =
     Inr (''OK: hdfs is CONCERNING - '', 0)"
proof -
  have h1: "fst (fetch_service (cli None 12 True) (steady (hdfs ''CONCERNING'' []))) =
     Inr (hdfs ''CONCERNING'' [])"
    by (simp add: fetch_service_cli)
  have h2: "healthSummary (hdfs ''CONCERNING'' []) = ''CONCERNING''"
    by (simp add: hdfs_def)
  from concerning_status [OF h1 h2] h1 h2 show ?thesis
    by (simp add: hdfs_def)
qed

text \<open>
  C5. When the service's summary is neither \<open>GOOD\<close> nor \<open>DISABLED\<close>, the status
  line lists, after the separator, every health check whose own summary is neither
  \<open>GOOD\<close> nor \<open>DISABLED\<close>, in the order of the server's list, each as
  \<open><name> (<summary>) \<close>, and nothing else. That is the status line for every summary
  of the table; a summary the table does not hold gives no status line at all (the lookup of
  line 160 raises). In particular the service \<open>hdfs\<close> with the summary \<open>BAD\<close> and the
  checks \<open>DATANODES_HEALTHY\<close> (\<open>BAD\<close>) and \<open>NAMENODE_UPTIME\<close> (\<open>GOOD\<close>) gives
  \<open>CRITICAL: hdfs is BAD - DATANODES_HEALTHY (BAD) \<close> and the code 2.
\<close>

theorem failing_checks_listed:
  assumes "fst (fetch_service a w) = Inr s"
    and "healthSummary s \<noteq> ''GOOD''"
    and "healthSummary s \<noteq> ''DISABLED''"
  shows "(healthSummary s \<in> set (map fst CM_STATE_CODES) \<longrightarrow>
          (\<exists>code. fst (main a w) =
             Inr ((if healthSummary s = ''CONCERNING'' then ''OK''
                   else if healthSummary s = ''BAD'' then ''CRITICAL'' else ''UNKNOWN'') @
                  '': '' @ name s @ '' is '' @ healthSummary s @ '' - '' @
                  concat (map check_text (filter check_shown (healthChecks s))), code))) \<and>
         (healthSummary s \<notin> set (map fst CM_STATE_CODES) \<longrightarrow>
          fst (main a w) = Inl (KeyError (KeyStr (healthSummary s)))) \<and>
         (s = \<lparr>name = ''hdfs'', healthSummary = ''BAD'',
               healthChecks = [\<lparr>chk_name = ''DATANODES_HEALTHY'', chk_summary = ''BAD''\<rparr>,
                               \<lparr>chk_name = ''NAMENODE_UPTIME'', chk_summary = ''GOOD''\<rparr>]\<rparr> \<longrightarrow>
          fst (main a w) = Inr (''CRITICAL: hdfs is BAD - DATANODES_HEALTHY (BAD) '', 2))"
proof -
  have m: "fst (main a w) = health_report s"
    using assms(1) by (rule main_report)
  have known: "\<exists>code. fst (main a w) =
            Inr ((if healthSummary s = ''CONCERNING'' then ''OK''
                  else if healthSummary s = ''BAD'' then ''CRITICAL'' else ''UNKNOWN'') @
                 '': '' @ name s @ '' is '' @ healthSummary s @ '' - '' @
                 concat (map check_text (filter check_shown (healthChecks s))), code)"
    if k: "healthSummary s \<in> set (map fst CM_STATE_CODES)"
  proof -
    consider "healthSummary s = ''CONCERNING''"
      | "healthSummary s \<in> {''HISTORY_NOT_AVAILABLE'', ''NOT_AVAILABLE'', ''BAD''}"
      using k assms(2,3) unfolding state_code_keys by auto
    then show ?thesis
    proof cases
      case 1
      then show ?thesis
        using m by (simp add: health_report_concerning checks_text_def)
    next
      case 2
      then show ?thesis
        using m by (auto simp add: health_report_loud checks_text_def)
    qed
  qed
  have unknown: "fst (main a w) = Inl (KeyError (KeyStr (healthSummary s)))"
    if "healthSummary s \<notin> set (map fst CM_STATE_CODES)"
    using m that by (simp add: health_report_unknown)
  have example: "health_report \<lparr>name = ''hdfs'', healthSummary = ''BAD'',
               healthChecks = [\<lparr>chk_name = ''DATANODES_HEALTHY'', chk_summary = ''BAD''\<rparr>,
                               \<lparr>chk_name = ''NAMENODE_UPTIME'', chk_summary = ''GOOD''\<rparr>]\<rparr> =
      Inr (''CRITICAL: hdfs is BAD - DATANODES_HEALTHY (BAD) '', 2)"
    by (simp add: health_report_def status_and_code_known)
  from known unknown example m show ?thesis
    by auto
qed

theorem failing_checks_listed_witness:
  "fst (fetch_service (cli None 12 False)
          (steady (hdfs ''NOT_AVAILABLE''
             [\<lparr>chk_name = ''A'', chk_summary = ''BAD''\<rparr>,
              \<lparr>chk_name = ''B'', chk_summary = ''DISABLED''\<rparr>,
              \<lparr>chk_name = ''C'', chk_summary = ''CONCERNING''\<rparr>]))) =
     Inr (hdfs ''NOT_AVAILABLE''
             [\<lparr>chk_name = ''A'', chk_summary = ''BAD''\<rparr>,
              \<lparr>chk_name = ''B'', chk_summary = ''DISABLED''\<rparr>,
              \<lparr>chk_name = ''C'', chk_summary = ''CONCERNING''\<rparr>]) \<and>
   ''NOT_AVAILABLE'' \<in> set (map fst CM_STATE_CODES) \<and>
   (\<exists>code. fst (main (cli None 12 False)
          (steady (hdfs ''NOT_AVAILABLE''
             [\<lparr>chk_name = ''A'', chk_summary = ''BAD''\<rparr>,
              \<lparr>chk_name = ''B'', chk_summary = ''DISABLED''\<rparr>,
              \<lparr>chk_name = ''C'', chk_summary = ''CONCERNING''\<rparr>]))) =
     Inr (''UNKNOWN: hdfs is NOT_AVAILABLE - A (BAD) C (CONCERNING) '', code))"
proof -
  let ?s = "hdfs ''NOT_AVAILABLE''
             [\<lparr>chk_name = ''A'', chk_summary = ''BAD''\<rparr>,
              \<lparr>chk_name = ''B'', chk_summary = ''DISABLED''\<rparr>,
              \<lparr>chk_name = ''C'', chk_summary = ''CONCERNING''\<rparr>]"
  have h1: "fst (fetch_service (cli None 12 False) (steady ?s)) = Inr ?s"
    by (simp add: fetch_service_cli)
  have h2: "healthSummary ?s \<in> set (map fst CM_STATE_CODES)"
    unfolding state_code_keys by (simp add: hdfs_def)
  have h3: "healthSummary ?s \<noteq> ''GOOD''"
    by (simp add: hdfs_def)
  have h4: "healthSummary ?s \<noteq> ''DISABLED''"
    by (simp add: hdfs_def)
  from failing_checks_listed [OF h1 h3 h4] h1 h2 show ?thesis
    by (simp add: hdfs_def check_text_def check_shown_def)
qed

text \<open>
  C6. When the service's summary is \<open>GOOD\<close> or \<open>DISABLED\<close>, the status line is the
  label, the service's name and the summary and nothing more: it does not end with the
  separator, and the report is the same whatever the list of health checks holds.
\<close>

theorem healthy_status_is_bare:
  assumes "fst (fetch_service a w) = Inr s"
    and "healthSummary s = ''GOOD'' \<or> healthSummary s = ''DISABLED''"
  shows "fst (main a w) =
           Inr ((if healthSummary s = ''GOOD'' then ''OK'' else ''UNKNOWN'') @ '': '' @
                name s @ '' is '' @ healthSummary s,
                if healthSummary s = ''GOOD'' then 0 else 3) \<and>
         (\<forall>check. health_report (s\<lparr>healthChecks := check\<rparr>) = health_report s) \<and>
         (\<forall>status code. fst (main a w) = Inr (status, code) \<longrightarrow>
            \<not> (\<exists>front. status = front @ '' - ''))"
proof -
  have m: "fst (main a w) = health_report s"
    using assms(1) by (rule main_report)
  have r: "health_report s =
           Inr ((if healthSummary s = ''GOOD'' then ''OK'' else ''UNKNOWN'') @ '': '' @
                name s @ '' is '' @ healthSummary s,
                if healthSummary s = ''GOOD'' then 0 else 3)"
    using assms(2) by (rule health_report_quiet)
  have same: "health_report (s\<lparr>healthChecks := check\<rparr>) = health_report s" for check
  proof -
    have "healthSummary (s\<lparr>healthChecks := check\<rparr>) = ''GOOD'' \<or>
          healthSummary (s\<lparr>healthChecks := check\<rparr>) = ''DISABLED''"
      using assms(2) by simp
    then have "health_report (s\<lparr>healthChecks := check\<rparr>) =
        Inr ((if healthSummary (s\<lparr>healthChecks := check\<rparr>) = ''GOOD'' then ''OK'' else ''UNKNOWN'')
             @ '': '' @ name (s\<lparr>healthChecks := check\<rparr>) @ '' is '' @
             healthSummary (s\<lparr>healthChecks := check\<rparr>),
             if healthSummary (s\<lparr>healthChecks := check\<rparr>) = ''GOOD'' then 0 else 3)"
      by (rule health_report_quiet)
    with r show ?thesis
      by simp
  qed
  have no_dash: "\<not> (\<exists>front. status = front @ '' - '')"
    if "fst (main a w) = Inr (status, code)" for status code
  proof
    assume "\<exists>front. status = front @ '' - ''"
    then obtain front where "status = front @ '' - ''" ..
    then have "last status = CHR '' ''"
      by simp
    moreover from that m r assms(2) have "last status = CHR ''D''"
      by auto
    ultimately show False
      by simp
  qed
  from m r same no_dash show ?thesis
    by simp
qed

theorem healthy_status_is_bare_witness:
  "fst (fetch_service (cli None 12 False) (steady (hdfs ''DISABLED'' hdfs_checks))) =
     Inr (hdfs ''DISABLED'' hdfs_checks) \<and>
   healthSummary (hdfs ''DISABLED'' hdfs_checks) = ''DISABLED'' \<and>
   fst (main (cli None 12 False) (steady (hdfs ''DISABLED'' hdfs_checks))) =
     Inr (''UNKNOWN: hdfs is DISABLED'', 3)"
proof -
  have h1: "fst (fetch_service (cli None 12 False) (steady (hdfs ''DISABLED'' hdfs_checks))) =
     Inr (hdfs ''DISABLED'' hdfs_checks)"
    by (simp add: fetch_service_cli)
  have h2: "healthSummary (hdfs ''DISABLED'' hdfs_checks) = ''GOOD'' \<or>
            healthSummary (hdfs ''DISABLED'' hdfs_checks) = ''DISABLED''"
    by (simp add: hdfs_def)
  from healthy_status_is_bare [OF h1 h2] h1 show ?thesis
    by (simp add: hdfs_def)
qed

text \<open>
  C7. The claim: without \<open>-p\<close> the port is 7180, or 7183 with \<open>--tls\<close>, and a port given
  with \<open>-p\<close> is always used unchanged. Line 137 tests \<open>not args.port\<close>, which also holds
  for the integer 0, so \<open>-p 0\<close> is replaced by the default: the claim fails at
  \<open>-p 0\<close>, with and without \<open>--tls\<close>.
\<close>

theorem port_zero_counterexample:
  "port (cli (Some 0) 12 False) = Some 0 \<and>
   port (default_port (cli (Some 0) 12 False)) = Some 7180 \<and>
   port (default_port (cli (Some 0) 12 True)) = Some 7183"
  by (simp add: cli_def default_port_def DEFAULT_HTTP_PORT_def DEFAULT_HTTPS_PORT_def)

text \<open>
  C7, as the code has it: without \<open>-p\<close> the resolved port is 7180, or 7183 with
  \<open>--tls\<close>; every port other than 0 given with \<open>-p\<close> is used unchanged, with or
  without \<open>--tls\<close>.
\<close>

theorem port_resolution:
  "(port a = None \<and> \<not> use_tls a \<longrightarrow> port (default_port a) = Some 7180) \<and>
   (port a = None \<and> use_tls a \<longrightarrow> port (default_port a) = Some 7183) \<and>
   (\<forall>p. port a = Some p \<and> p \<noteq> 0 \<longrightarrow> port (default_port a) = Some p)"
  by (simp add: default_port_def DEFAULT_HTTP_PORT_def DEFAULT_HTTPS_PORT_def)

theorem port_resolution_witness:
  "port (cli (Some 8080) 12 True) = Some 8080 \<and> (8080::int) \<noteq> 0 \<and>
   port (default_port (cli (Some 8080) 12 True)) = Some 8080 \<and>
   port (default_port (cli (Some 8080) 12 False)) = Some 8080 \<and>
   port (default_port (cli None 12 False)) = Some 7180 \<and>
   port (default_port (cli None 12 True)) = Some 7183"
proof -
  have p: "port (cli p v t) = p" "use_tls (cli p v t) = t" for p v t
    by (simp_all add: cli_def)
  from port_resolution [of "cli (Some 8080) 12 True"] port_resolution [of "cli (Some 8080) 12 False"]
    port_resolution [of "cli None 12 False"] port_resolution [of "cli None 12 True"]
  show ?thesis
    unfolding p by simp
qed

text \<open>
  C8. The claim: every API version below 12 makes the script print the advisory and go on,
  and a version of 12 or more prints nothing. Line 85 tests \<open>args.api_version and ...\<close>,
  and the integer 0 is false there, so \<open>--api-version 0\<close> prints nothing: the claim
  fails at version 0, where the whole run of \<open>main\<close> writes nothing to standard output.
\<close>

theorem version_zero_counterexample:
  "api_version (cli None 0 False) < MINIMUM_SUPPORTED_API_VERSION \<and>
   validate_api_compatibility (cli None 0 False) (steady (hdfs ''GOOD'' [])) =
     steady (hdfs ''GOOD'' []) \<and>
   stdout (snd (main (cli None 0 False) (steady (hdfs ''GOOD'' [])))) = []"
  by (simp add: run_defs)

text \<open>
  C8, as the code has it: for every version below 12 other than 0 the validation prints
  \<open>ERROR: Given API version: <v>. Minimum supported API version: 12\<close> and \<open>main\<close> goes
  on from there to the login, the requests and the report; for a version of 12 or more the
  validation prints nothing and \<open>main\<close> goes on in the unchanged world.
\<close>

theorem api_version_advisory:
  "(api_version a \<noteq> 0 \<and> api_version a < 12 \<longrightarrow>
      validate_api_compatibility a w =
        py_print (''ERROR: Given API version: '' @ str_int (api_version a) @
                  ''. Minimum supported API version: 12'') w \<and>
      main a w =
        (case login_and_fetch (default_port a)
                (py_print (''ERROR: Given API version: '' @ str_int (api_version a) @
                           ''. Minimum supported API version: 12'') w) of
           (Inl e, w1) \<Rightarrow> (Inl e, w1)
         | (Inr s, w1) \<Rightarrow> (health_report s, w1))) \<and>
   (12 \<le> api_version a \<longrightarrow>
      validate_api_compatibility a w = w \<and>
      main a w =
        (case login_and_fetch (default_port a) w of
           (Inl e, w1) \<Rightarrow> (Inl e, w1)
         | (Inr s, w1) \<Rightarrow> (health_report s, w1)))"
  by (simp add: main_def fetch_service_def validate_api_compatibility_def
      api_version_default_port MINIMUM_SUPPORTED_API_VERSION_def str_int_12)

theorem api_version_advisory_witness:
  "api_version (cli None 5 False) \<noteq> 0 \<and> api_version (cli None 5 False) < 12 \<and>
   main (cli None 5 False) (steady (hdfs ''GOOD'' [])) =
     (Inr (''OK: hdfs is GOOD'', 0),
      (steady (hdfs ''GOOD'' []))
        \<lparr>stdout := [''ERROR: Given API version: 5. Minimum supported API version: 12'' @
                    [CHR 0x0A]],
         api := Some \<lparr>server_host = ''cm'', server_port = Some 7180,
                      api_username = Some ''admin'', api_password = Some ''secret'',
                      version = 5, api_use_tls = False\<rparr>,
         requests := 2\<rparr>) \<and>
   12 \<le> api_version (cli None 16 False) \<and>
   stdout (snd (main (cli None 16 False) (steady (hdfs ''GOOD'' [])))) = []"
proof -
  have v: "api_version (cli None 5 False) = 5" "api_version (cli None 16 False) = 16"
    by (simp_all add: cli_def)
  have s5: "str_int 5 = ''5''"
    by (simp add: str_int_def str_nat.simps digit_def)
  from api_version_advisory [of "cli None 5 False" "steady (hdfs ''GOOD'' [])"]
    api_version_advisory [of "cli None 16 False" "steady (hdfs ''GOOD'' [])"]
  show ?thesis
    unfolding v
    by (simp add: s5 login_and_fetch_def get_login_credentials_def cli_def server_def steady_def
  steady_def turning_def         default_port_def py_print_def initialize_api_def get_cluster_def get_service_def
        hdfs_def health_report_def status_and_code_known DEFAULT_HTTP_PORT_def)
qed

text \<open>
  C9. When the service's summary is neither \<open>GOOD\<close> nor \<open>DISABLED\<close> (so also when it
  is \<open>CONCERNING\<close>), line 164 appends the separator \<open> - \<close> whether or not a check
  follows: if every health check has the summary \<open>GOOD\<close> or \<open>DISABLED\<close>, the status
  line ends with the separator and nothing after it. That is the status line for every
  summary of the table; a summary the table does not hold gives no status line at all.
\<close>

theorem dangling_separator:
  assumes "fst (fetch_service a w) = Inr s"
    and "healthSummary s \<noteq> ''GOOD''"
    and "healthSummary s \<noteq> ''DISABLED''"
  shows "(healthSummary s \<in> set (map fst CM_STATE_CODES) \<longrightarrow>
          (\<exists>label code.
             code_message code = Inr label \<and>
             fst (main a w) =
               Inr (label @ '': '' @ name s @ '' is '' @ healthSummary s @ '' - '' @
                    checks_text (healthChecks s), code) \<and>
             ((\<forall>chk \<in> set (healthChecks s).
                  chk_summary chk = ''GOOD'' \<or> chk_summary chk = ''DISABLED'') \<longrightarrow>
              fst (main a w) =
                Inr (label @ '': '' @ name s @ '' is '' @ healthSummary s @ '' - '', code)))) \<and>
         (healthSummary s \<notin> set (map fst CM_STATE_CODES) \<longrightarrow>
          fst (main a w) = Inl (KeyError (KeyStr (healthSummary s))))"
proof (intro conjI impI)
  have m: "fst (main a w) = health_report s"
    using assms(1) by (rule main_report)
  {
    assume "healthSummary s \<notin> set (map fst CM_STATE_CODES)"
    then show "fst (main a w) = Inl (KeyError (KeyStr (healthSummary s)))"
      using m by (simp add: health_report_unknown)
  }
  assume known: "healthSummary s \<in> set (map fst CM_STATE_CODES)"
  have quiet: "checks_text (healthChecks s) = []"
    if "\<forall>chk \<in> set (healthChecks s). chk_summary chk = ''GOOD'' \<or> chk_summary chk = ''DISABLED''"
  proof (rule checks_text_none)
    from that show "\<forall>chk \<in> set (healthChecks s). \<not> check_shown chk"
      by (auto simp add: check_shown_def)
  qed
  consider "healthSummary s = ''CONCERNING''"
    | "healthSummary s \<in> {''HISTORY_NOT_AVAILABLE'', ''NOT_AVAILABLE'', ''BAD''}"
    using known assms(2,3) unfolding state_code_keys by auto
  then obtain label code where l: "code_message code = Inr label"
    and r: "health_report s =
      Inr (label @ '': '' @ name s @ '' is '' @ healthSummary s @ '' - '' @
           checks_text (healthChecks s), code)"
  proof cases
    case 1
    then have "health_report s =
      Inr (''OK'' @ '': '' @ name s @ '' is '' @ healthSummary s @ '' - '' @
           checks_text (healthChecks s), 0)"
      by (simp add: health_report_concerning)
    with code_message_known(1) show ?thesis
      by (rule that)
  next
    case 2
    then have "health_report s =
      Inr ((if healthSummary s = ''BAD'' then ''CRITICAL'' else ''UNKNOWN'') @ '': '' @
                name s @ '' is '' @ healthSummary s @ '' - '' @ checks_text (healthChecks s),
                if healthSummary s = ''BAD'' then 2 else 3)"
      by (rule health_report_loud)
    moreover have "code_message (if healthSummary s = ''BAD'' then 2 else 3) =
        Inr (if healthSummary s = ''BAD'' then ''CRITICAL'' else ''UNKNOWN'')"
      by (simp add: code_message_known)
    ultimately show ?thesis
      by (rule that [rotated])
  qed
  from m l r quiet show "\<exists>label code.
             code_message code = Inr label \<and>
             fst (main a w) =
               Inr (label @ '': '' @ name s @ '' is '' @ healthSummary s @ '' - '' @
                    checks_text (healthChecks s), code) \<and>
             ((\<forall>chk \<in> set (healthChecks s).
                  chk_summary chk = ''GOOD'' \<or> chk_summary chk = ''DISABLED'') \<longrightarrow>
              fst (main a w) =
                Inr (label @ '': '' @ name s @ '' is '' @ healthSummary s @ '' - '', code))"
    by auto
qed

theorem dangling_separator_witness:
  "fst (fetch_service (cli None 12 False)
          (steady (hdfs ''BAD'' [\<lparr>chk_name = ''NAMENODE_UPTIME'', chk_summary = ''GOOD''\<rparr>]))) =
     Inr (hdfs ''BAD'' [\<lparr>chk_name = ''NAMENODE_UPTIME'', chk_summary = ''GOOD''\<rparr>]) \<and>
   ''BAD'' \<in> set (map fst CM_STATE_CODES) \<and>
   (\<exists>label code. fst (main (cli None 12 False)
          (steady (hdfs ''BAD'' [\<lparr>chk_name = ''NAMENODE_UPTIME'', chk_summary = ''GOOD''\<rparr>]))) =
     Inr (label @ '': hdfs is BAD - '', code))"
proof -
  let ?s = "hdfs ''BAD'' [\<lparr>chk_name = ''NAMENODE_UPTIME'', chk_summary = ''GOOD''\<rparr>]"
  have h1: "fst (fetch_service (cli None 12 False) (steady ?s)) = Inr ?s"
    by (simp add: fetch_service_cli)
  have h2: "healthSummary ?s \<in> set (map fst CM_STATE_CODES)"
    unfolding state_code_keys by (simp add: hdfs_def)
  have h3: "healthSummary ?s \<noteq> ''GOOD''"
    by (simp add: hdfs_def)
  have h4: "healthSummary ?s \<noteq> ''DISABLED''"
    by (simp add: hdfs_def)
  from dangling_separator [OF h1 h3 h4] h1 h2 show ?thesis
    by (auto simp add: hdfs_def)
qed

text \<open>
  C10. When the service's summary is none of the six keys of \<open>CM_STATE_CODES\<close>, the
  lookup of line 160 raises \<open>KeyError\<close> for it: \<open>main\<close> returns no status line and no
  code.
\<close>

theorem unknown_summary_key_error:
  assumes "fst (fetch_service a w) = Inr s"
    and "healthSummary s \<notin>
           {''HISTORY_NOT_AVAILABLE'', ''NOT_AVAILABLE'', ''DISABLED'', ''GOOD'',
            ''CONCERNING'', ''BAD''}"
  shows "fst (main a w) = Inl (KeyError (KeyStr (healthSummary s))) \<and>
         map_of CM_STATE_CODES (healthSummary s) = None \<and>
         (\<forall>status code. fst (main a w) \<noteq> Inr (status, code))"
proof -
  have k: "healthSummary s \<notin> set (map fst CM_STATE_CODES)"
    using assms(2) unfolding state_code_keys .
  have "fst (main a w) = health_report s"
    using assms(1) by (rule main_report)
  also have "\<dots> = Inl (KeyError (KeyStr (healthSummary s)))"
    using k by (rule health_report_unknown)
  finally have "fst (main a w) = Inl (KeyError (KeyStr (healthSummary s)))" .
  moreover from k have "map_of CM_STATE_CODES (healthSummary s) = None"
    by (simp add: map_of_eq_None_iff)
  ultimately show ?thesis
    by simp
qed

theorem unknown_summary_key_error_witness:
  "fst (fetch_service (cli None 12 False) (steady (hdfs ''STARTING'' hdfs_checks))) =
     Inr (hdfs ''STARTING'' hdfs_checks) \<and>
   fst (main (cli None 12 False) (steady (hdfs ''STARTING'' hdfs_checks))) =
     Inl (KeyError (KeyStr ''STARTING'')) \<and>
   fst (script (cli None 12 False) (steady (hdfs ''STARTING'' hdfs_checks))) =
     Uncaught (KeyError (KeyStr ''STARTING''))"
proof -
  have h1: "fst (fetch_service (cli None 12 False) (steady (hdfs ''STARTING'' hdfs_checks))) =
     Inr (hdfs ''STARTING'' hdfs_checks)"
    by (simp add: fetch_service_cli)
  have h2: "healthSummary (hdfs ''STARTING'' hdfs_checks) \<notin>
           {''HISTORY_NOT_AVAILABLE'', ''NOT_AVAILABLE'', ''DISABLED'', ''GOOD'',
            ''CONCERNING'', ''BAD''}"
    by (simp add: hdfs_def)
  have m: "fst (main (cli None 12 False) (steady (hdfs ''STARTING'' hdfs_checks))) =
     Inl (KeyError (KeyStr ''STARTING''))"
    using unknown_summary_key_error [OF h1 h2] by (simp add: hdfs_def)
  then have "fst (script (cli None 12 False) (steady (hdfs ''STARTING'' hdfs_checks))) =
     Uncaught (KeyError (KeyStr ''STARTING''))"
    by (cases "main (cli None 12 False) (steady (hdfs ''STARTING'' hdfs_checks))")
      (simp add: script_def)
  with h1 m show ?thesis
    by simp
qed

end
